theory Spec2Isabelle
  imports Complex_Main "HOL-Library.AList"
begin

section \<open>Python values\<close>

text \<open>
  The pipeline passes JSON-like Python values around: the record returned by the language
  model is whatever \<^verbatim>\<open>json.loads\<close> produced. Strings are lists of characters with code
  points below 256; an integer is unbounded; a float is kept as the text Python prints for it
  (\<^verbatim>\<open>repr\<close> of a float round-trips, so the text identifies the float); a dict is an
  association list in insertion order.
\<close>

datatype pyval =
    PNone
  | PBool bool
  | PInt int
  | PFloat string
  | PStr string
  | PList "pyval list"
  | PDict "(string \<times> pyval) list"

type_synonym pydict = "(string \<times> pyval) list"

datatype error = AttributeError | TypeError | ValueError | RuntimeError

text \<open>Truthiness, as \<^verbatim>\<open>if x\<close>, \<^verbatim>\<open>not x\<close> and \<^verbatim>\<open>x or y\<close> test it.\<close>

fun truthy :: "pyval \<Rightarrow> bool" where
  "truthy PNone = False"
| "truthy (PBool b) = b"
| "truthy (PInt i) = (i \<noteq> 0)"
| "truthy (PFloat r) = (r \<noteq> ''0.0'' \<and> r \<noteq> ''-0.0'')"
| "truthy (PStr s) = (s \<noteq> [])"
| "truthy (PList xs) = (xs \<noteq> [])"
| "truthy (PDict kvs) = (kvs \<noteq> [])"

definition py_or :: "pyval \<Rightarrow> pyval \<Rightarrow> pyval" where
  "py_or x y = (if truthy x then x else y)"

text \<open>\<^verbatim>\<open>d.get(k)\<close> and \<^verbatim>\<open>d[k] = v\<close> on a dict.\<close>

definition dict_get :: "pydict \<Rightarrow> string \<Rightarrow> pyval" where
  "dict_get d k = (case map_of d k of None \<Rightarrow> PNone | Some v \<Rightarrow> v)"

definition dict_set :: "pydict \<Rightarrow> string \<Rightarrow> pyval \<Rightarrow> pydict" where
  "dict_set d k v = AList.update k v d"

section \<open>String operations\<close>

text \<open>\<^verbatim>\<open>str.isspace\<close> on one character (code points below 256).\<close>

definition is_space :: "char \<Rightarrow> bool" where
  "is_space c = (of_char c \<in> {9::nat, 10, 11, 12, 13, 28, 29, 30, 31, 32, 133, 160})"

definition strip :: "string \<Rightarrow> string" where
  "strip s = rev (dropWhile is_space (rev (dropWhile is_space s)))"

definition is_upper :: "char \<Rightarrow> bool" where
  "is_upper c = (let n = of_char c :: nat in
     (65 \<le> n \<and> n \<le> 90) \<or> (192 \<le> n \<and> n \<le> 222 \<and> n \<noteq> 215))"

text \<open>Lower-casing adds 32 to the code point of an upper-case letter, that is, sets bit 5.\<close>

definition lower_char :: "char \<Rightarrow> char" where
  "lower_char c =
     (if is_upper c
      then (case c of Char b0 b1 b2 b3 b4 b5 b6 b7 \<Rightarrow> Char b0 b1 b2 b3 b4 True b6 b7)
      else c)"

definition lower :: "string \<Rightarrow> string" where
  "lower s = map lower_char s"

fun startswith :: "string \<Rightarrow> string \<Rightarrow> bool" where
  "startswith s [] = True"
| "startswith [] (p # ps) = False"
| "startswith (c # cs) (p # ps) = (c = p \<and> startswith cs ps)"

text \<open>\<^verbatim>\<open>sub in s\<close> on strings.\<close>

fun contains :: "string \<Rightarrow> string \<Rightarrow> bool" where
  "contains [] sub = (sub = [])"
| "contains (c # cs) sub = (startswith (c # cs) sub \<or> contains cs sub)"

text \<open>\<^verbatim>\<open>sep.join(parts)\<close>.\<close>

fun join :: "string \<Rightarrow> string list \<Rightarrow> string" where
  "join sep [] = []"
| "join sep [x] = x"
| "join sep (x # y # ys) = x @ sep @ join sep (y # ys)"

text \<open>\<^verbatim>\<open>str(v)\<close> and \<^verbatim>\<open>repr(v)\<close>: decimal integers, quoted and escaped strings, lists and dicts.\<close>

function str_of_nat :: "nat \<Rightarrow> string" where
  "str_of_nat n =
     (if n < 10 then [''0123456789'' ! n]
      else str_of_nat (n div 10) @ [''0123456789'' ! (n mod 10)])"
  by pat_completeness auto
termination
  by (relation "measure id") auto

declare str_of_nat.simps [simp del]

definition str_of_int :: "int \<Rightarrow> string" where
  "str_of_int i = (if i < 0 then ''-'' @ str_of_nat (nat (- i)) else str_of_nat (nat i))"

definition hex2 :: "nat \<Rightarrow> string" where
  "hex2 n = [''0123456789abcdef'' ! (n div 16), ''0123456789abcdef'' ! (n mod 16)]"

definition repr_char :: "char \<Rightarrow> char \<Rightarrow> string" where
  "repr_char quote c =
     (let n = of_char c :: nat in
      if c = quote \<or> c = CHR 0x5C then [CHR 0x5C, c]
      else if n = 9 then [CHR 0x5C, CHR ''t'']
      else if n = 10 then [CHR 0x5C, CHR ''n'']
      else if n = 13 then [CHR 0x5C, CHR ''r'']
      else if n < 32 \<or> n = 127 then [CHR 0x5C, CHR ''x''] @ hex2 n
      else if n < 127 then [c]
      else if 161 \<le> n \<and> n \<noteq> 173 then [c]
      else [CHR 0x5C, CHR ''x''] @ hex2 n)"

definition repr_str :: "string \<Rightarrow> string" where
  "repr_str s =
     (let quote = (if CHR 0x27 \<in> set s \<and> CHR 0x22 \<notin> set s then CHR 0x22 else CHR 0x27)
      in [quote] @ concat (map (repr_char quote) s) @ [quote])"

fun py_repr :: "pyval \<Rightarrow> string"
  and repr_items :: "pyval list \<Rightarrow> string list"
  and repr_pairs :: "(string \<times> pyval) list \<Rightarrow> string list" where
  "py_repr PNone = ''None''"
| "py_repr (PBool b) = (if b then ''True'' else ''False'')"
| "py_repr (PInt i) = str_of_int i"
| "py_repr (PFloat r) = r"
| "py_repr (PStr s) = repr_str s"
| "py_repr (PList xs) = ''['' @ join '', '' (repr_items xs) @ '']''"
| "py_repr (PDict kvs) = ''{'' @ join '', '' (repr_pairs kvs) @ ''}''"
| "repr_items [] = []"
| "repr_items (x # xs) = py_repr x # repr_items xs"
| "repr_pairs [] = []"
| "repr_pairs ((k, v) # kvs) = (repr_str k @ '': '' @ py_repr v) # repr_pairs kvs"

definition py_str :: "pyval \<Rightarrow> string" where
  "py_str v = (case v of PStr s \<Rightarrow> s | _ \<Rightarrow> py_repr v)"

text \<open>\<^verbatim>\<open>list(dict.fromkeys(xs))\<close>: the elements of \<open>xs\<close> in first-seen order, each once.\<close>

fun fromkeys_acc :: "'a list \<Rightarrow> 'a list \<Rightarrow> 'a list" where
  "fromkeys_acc seen [] = seen"
| "fromkeys_acc seen (x # xs) = fromkeys_acc (if x \<in> set seen then seen else seen @ [x]) xs"

definition fromkeys :: "'a list \<Rightarrow> 'a list" where
  "fromkeys xs = fromkeys_acc [] xs"

section \<open>classify.py\<close>

text \<open>
  A Python number as the comparisons of \<^verbatim>\<open>infer_stage_from_ticket\<close> see it: an integer or a
  finite float is the real number it denotes; the three special floats are kept apart.
  Python compares an \<^verbatim>\<open>int\<close> with a \<^verbatim>\<open>float\<close> exactly, and every comparison with NaN is false.
\<close>

datatype number = Finite real | PosInf | NegInf | NaN

fun num_le :: "number \<Rightarrow> number \<Rightarrow> bool" where
  "num_le NaN b = False"
| "num_le a NaN = False"
| "num_le NegInf b = True"
| "num_le a PosInf = True"
| "num_le (Finite x) (Finite y) = (x \<le> y)"
| "num_le PosInf b = False"
| "num_le a NegInf = False"

fun num_lt :: "number \<Rightarrow> number \<Rightarrow> bool" where
  "num_lt NaN b = False"
| "num_lt a NaN = False"
| "num_lt (Finite x) (Finite y) = (x < y)"
| "num_lt PosInf b = False"
| "num_lt a NegInf = False"
| "num_lt NegInf b = True"
| "num_lt a PosInf = True"

definition infer_stage_from_ticket :: "number option \<Rightarrow> string option" where
  "infer_stage_from_ticket amount_usd =
     (case amount_usd of
        None \<Rightarrow> None
      | Some a \<Rightarrow>
          if num_le (Finite 100000) a \<and> num_le a (Finite 500000) then Some ''Pre-seed''
          else if num_lt (Finite 500000) a \<and> num_le a (Finite 2000000) then Some ''Seed''
          else if num_lt (Finite 2000000) a \<and> num_le a (Finite 10000000) then Some ''Series A''
          else if num_lt (Finite 10000000) a \<and> num_le a (Finite 30000000) then Some ''Series B''
          else if num_lt (Finite 30000000) a then Some ''Series C''
          else None)"

section \<open>main.py: tables and helpers\<close>

text \<open>
  The organization of a row, as \<^verbatim>\<open>main\<close> builds it: a name, and a country and a website that
  are a string or None.
\<close>

record org =
  org_name :: string
  org_country :: "string option"
  org_website :: "string option"

definition clip :: "string \<Rightarrow> nat \<Rightarrow> string option" where
  "clip s n =
     (if s = [] then None
      else (let t = strip s in Some (if length t > n then take n t @ ''...'' else t)))"

definition opt_str :: "string option \<Rightarrow> pyval" where
  "opt_str r = (case r of None \<Rightarrow> PNone | Some s \<Rightarrow> PStr s)"

fun first_label :: "pydict \<Rightarrow> string list \<Rightarrow> string list" where
  "first_label item [] = []"
| "first_label item (k # ks) =
     (case dict_get item k of
        PStr v \<Rightarrow> if strip v \<noteq> [] then [strip v] else first_label item ks
      | _ \<Rightarrow> first_label item ks)"

text \<open>What one iteration of the loop of \<^verbatim>\<open>_as_string_sector_list\<close> appends to \<^verbatim>\<open>out\<close>.\<close>

fun sector_item :: "pyval \<Rightarrow> string list" where
  "sector_item (PStr item) = (let s = strip item in if s \<noteq> [] then [s] else [])"
| "sector_item (PDict item) = first_label item [''name'', ''label'', ''value'', ''sector'']"
| "sector_item item = (let s = strip (py_str item) in if s \<noteq> [] then [s] else [])"

definition as_string_sector_list :: "pyval \<Rightarrow> string list" where
  "as_string_sector_list raw =
     (case raw of
        PNone \<Rightarrow> []
      | PStr r \<Rightarrow> if strip r \<noteq> [] then [strip r] else []
      | PList items \<Rightarrow> concat (map sector_item items)
      | _ \<Rightarrow> (let s = strip (py_str raw) in if s \<noteq> [] then [s] else []))"

definition synth_additional_info :: "string \<Rightarrow> string option \<Rightarrow> string \<Rightarrow> string list \<Rightarrow> string option" where
  "synth_additional_info name country fc sectors =
     (let region = (case country of None \<Rightarrow> ''the region''
                    | Some c \<Rightarrow> if c \<noteq> [] then c else ''the region'');
          sec_txt = (if sectors \<noteq> [] then join '', '' sectors else ''key industries'');
          T = [
            (''Venture Capital Funds'',
               ''A venture capital firm investing across '' @ sec_txt @ ''. '' @ name
               @ '' backs startups in '' @ region @ '' with funding and strategic support.''),
            (''Investment Firms'',
               ''An investment firm providing capital and strategic support across '' @ sec_txt
               @ ''. '' @ name @ '' partners with companies in '' @ region
               @ '' to scale and optimize operations.''),
            (''Angel Investors'',
               ''An angel '' @ (if contains (lower name) ''network'' then ''network'' else ''investor'')
               @ '' backing early-stage startups in '' @ sec_txt @ ''. '' @ name
               @ '' supports founders in '' @ region @ '' with capital and guidance.''),
            (''Microfinance Institutions'',
               ''A microfinance institution enabling access to finance for micro and small enterprises. ''
               @ name @ '' serves entrepreneurs in '' @ region
               @ '' through tailored credit solutions.''),
            (''Accelerators'',
               ''An accelerator delivering programs and mentorship for startups. '' @ name
               @ '' helps founders in '' @ region @ '' validate, build, and grow.''),
            (''Incubators'',
               ''An incubator providing workspace and hands-on support for early ventures. ''
               @ name @ '' nurtures entrepreneurs in '' @ region @ '' from idea to startup.''),
            (''Sovereign Wealth Funds'',
               ''A sovereign wealth fund investing for long-term national value. '' @ name
               @ '' allocates capital to diversified sectors in '' @ region @ ''.''),
            (''Coworking Spaces'',
               ''A coworking hub offering flexible workspace and community for entrepreneurs. ''
               @ name @ '' hosts teams and events in '' @ region @ ''.''),
            (''Entrepreneurship Support Agencies'',
               ''An ecosystem support organization delivering programs and services for entrepreneurs. ''
               @ name @ '' promotes startup growth in '' @ region @ ''.''),
            (''Universities & Research Centers'',
               ''A university/research center fostering innovation and commercialization. ''
               @ name @ '' supports research-based ventures in '' @ region @ ''.'')];
          generic = ''An organization operating across '' @ sec_txt @ ''. '' @ name
                    @ '' supports businesses in '' @ region @ ''.'';
          text = (case map_of T fc of
                    None \<Rightarrow> generic
                  | Some t \<Rightarrow> if t \<noteq> [] then t else generic)
      in clip text 220)"

definition SECTOR_ALIAS_WRITE :: "(string \<times> string) list" where
  "SECTOR_ALIAS_WRITE =
     [(''Information & Communication Technology (ICT)'', ''ICT''),
      (''ICT'', ''ICT'')]"

definition DEFAULT_SECTOR_BY_FC :: "(string \<times> string) list" where
  "DEFAULT_SECTOR_BY_FC =
     [(''Investment Firms'', ''Business & Professional Services''),
      (''Sovereign Wealth Funds'', ''Business & Professional Services''),
      (''Venture Capital Funds'', ''Business & Professional Services''),
      (''Angel Investors'', ''Business & Professional Services''),
      (''Microfinance Institutions'', ''Business & Professional Services''),
      (''Accelerators'', ''Business & Professional Services''),
      (''Incubators'', ''Business & Professional Services''),
      (''Coworking Spaces'', ''Business & Professional Services''),
      (''Entrepreneurship Support Agencies'', ''Business & Professional Services''),
      (''Universities & Research Centers'', ''Education'')]"

definition ALLOWED_SECTORS :: "string list" where
  "ALLOWED_SECTORS =
     [''Information & Communication Technology (ICT)'', ''ICT'', ''Health'', ''Energy'',
      ''Agriculture'', ''Environment'', ''Industry & Manufacturing'',
      ''Transportation & Mobility'', ''Education'', ''Creative Industries'',
      ''Infrastructure & Real Estate'', ''Social Impact'', ''Business & Professional Services'']"

definition map_sector_label_for_sheet :: "string \<Rightarrow> string" where
  "map_sector_label_for_sheet s = (case map_of SECTOR_ALIAS_WRITE s of None \<Rightarrow> s | Some a \<Rightarrow> a)"

text \<open>\<^verbatim>\<open>DEFAULT_SECTOR_BY_FC.get(fc, "Business & Professional Services")\<close>.\<close>

definition default_sector :: "string \<Rightarrow> string" where
  "default_sector fc =
     (case map_of DEFAULT_SECTOR_BY_FC fc of
        None \<Rightarrow> ''Business & Professional Services''
      | Some d \<Rightarrow> d)"

section \<open>main.py: record sanitization\<close>

text \<open>
  \<^verbatim>\<open>sanitize_record\<close> mutates the record in place and returns it; the model returns the
  updated dict. The one statement that can raise is \<^verbatim>\<open>.strip()\<close> on a
  \<^verbatim>\<open>funding_classification\<close> that is truthy and not a string (AttributeError). After the first
  block \<^verbatim>\<open>record["funding_classification"]\<close> is a string, bound to \<open>cls\<close> below.
\<close>

definition sanitize_record :: "org \<Rightarrow> pydict \<Rightarrow> string \<Rightarrow> string list \<Rightarrow> error + pydict" where
  "sanitize_record org record heuristic_fc inferred_sectors =
     (case py_or (dict_get record ''funding_classification'') (PStr []) of
        PStr f \<Rightarrow>
          (let fc = strip f;
               cls = (if fc = []
                      then (if heuristic_fc \<noteq> [] then heuristic_fc else ''Investment Firms'')
                      else f);
               r1 = (if fc = [] then dict_set record ''funding_classification'' (PStr cls)
                     else record);
               r2 = (if cls = ''Angel Investors''
                     then (if \<not> truthy (dict_get r1 ''angel_type'')
                           then (let name_lower = lower (org_name org) in
                                 dict_set r1 ''angel_type''
                                   (PStr (if contains name_lower ''network''
                                            \<or> contains name_lower ''group''
                                            \<or> contains name_lower ''syndicate''
                                          then ''network'' else ''individual'')))
                           else r1)
                     else dict_set r1 ''angel_type'' PNone);
               model_secs_raw = as_string_sector_list (dict_get r2 ''sectors'');
               model_secs = filter (\<lambda>s. s \<in> set ALLOWED_SECTORS) model_secs_raw;
               model_secs1 =
                 (if model_secs = []
                  then (let inferred_raw = as_string_sector_list (PList (map PStr inferred_sectors))
                        in filter (\<lambda>s. s \<in> set ALLOWED_SECTORS) inferred_raw)
                  else model_secs);
               model_secs2 = (if model_secs1 = [] then [default_sector cls] else model_secs1);
               r3 = dict_set r2 ''sectors'' (PList (map PStr (take 4 (fromkeys model_secs2))));
               ai = dict_get r3 ''additional_info'';
               r4 = dict_set r3 ''additional_info''
                      (case ai of
                         PStr a \<Rightarrow>
                           if a \<noteq> [] \<and> length (strip a) > 10 then opt_str (clip a 220)
                           else opt_str (synth_additional_info (org_name org) (org_country org) cls
                                  (map map_sector_label_for_sheet (take 4 (fromkeys model_secs2))))
                       | _ \<Rightarrow>
                           opt_str (synth_additional_info (org_name org) (org_country org) cls
                                  (map map_sector_label_for_sheet (take 4 (fromkeys model_secs2)))));
               r5 = (if cls \<noteq> ''Venture Capital Funds''
                     then dict_set (dict_set (dict_set (dict_set r4 ''stages'' (PList []))
                            ''ticket_size_usd_min'' PNone) ''ticket_size_usd_max'' PNone)
                            ''ticket_size_currency'' PNone
                     else r4);
               srcs = py_or (dict_get r5 ''sources'') (PList [])
           in Inr (dict_set r5 ''sources''
                     (case srcs of PList l \<Rightarrow> PList (take 5 l) | _ \<Rightarrow> PList [])))
      | _ \<Rightarrow> Inl AttributeError)"

section \<open>The blocks of sanitize_record\<close>

text \<open>
  The body of \<^verbatim>\<open>sanitize_record\<close>, block by block as the source comments divide it. The
  lemma \<open>sanitize_record_blocks\<close> below shows that the function is their composition;
  the properties of the function are proved on the blocks.
\<close>

definition resolve_cls :: "string \<Rightarrow> string \<Rightarrow> string" where
  "resolve_cls f heuristic_fc =
     (if strip f = []
      then (if heuristic_fc \<noteq> [] then heuristic_fc else ''Investment Firms'')
      else f)"

definition block_fc :: "pydict \<Rightarrow> string \<Rightarrow> string \<Rightarrow> pydict" where
  "block_fc record f heuristic_fc =
     (if strip f = []
      then dict_set record ''funding_classification'' (PStr (resolve_cls f heuristic_fc))
      else record)"

definition derived_angel_type :: "org \<Rightarrow> string" where
  "derived_angel_type org =
     (let name_lower = lower (org_name org) in
      if contains name_lower ''network'' \<or> contains name_lower ''group''
         \<or> contains name_lower ''syndicate''
      then ''network'' else ''individual'')"

definition block_angel :: "org \<Rightarrow> string \<Rightarrow> pydict \<Rightarrow> pydict" where
  "block_angel org cls r1 =
     (if cls = ''Angel Investors''
      then (if \<not> truthy (dict_get r1 ''angel_type'')
            then dict_set r1 ''angel_type'' (PStr (derived_angel_type org))
            else r1)
      else dict_set r1 ''angel_type'' PNone)"

definition allowed_only :: "string list \<Rightarrow> string list" where
  "allowed_only xs = filter (\<lambda>s. s \<in> set ALLOWED_SECTORS) xs"

definition sector_chain :: "string \<Rightarrow> pyval \<Rightarrow> string list \<Rightarrow> string list" where
  "sector_chain cls raw inferred_sectors =
     (let model_secs = allowed_only (as_string_sector_list raw);
          model_secs1 = (if model_secs = []
                         then allowed_only (as_string_sector_list (PList (map PStr inferred_sectors)))
                         else model_secs)
      in if model_secs1 = [] then [default_sector cls] else model_secs1)"

definition final_sectors :: "string \<Rightarrow> pyval \<Rightarrow> string list \<Rightarrow> string list" where
  "final_sectors cls raw inferred_sectors = take 4 (fromkeys (sector_chain cls raw inferred_sectors))"

definition keeps_model_note :: "pyval \<Rightarrow> bool" where
  "keeps_model_note ai = (case ai of PStr a \<Rightarrow> a \<noteq> [] \<and> length (strip a) > 10 | _ \<Rightarrow> False)"

definition note_value :: "org \<Rightarrow> string \<Rightarrow> string list \<Rightarrow> pyval \<Rightarrow> pyval" where
  "note_value org cls secs ai =
     (case ai of
        PStr a \<Rightarrow>
          if a \<noteq> [] \<and> length (strip a) > 10 then opt_str (clip a 220)
          else opt_str (synth_additional_info (org_name org) (org_country org) cls
                 (map map_sector_label_for_sheet secs))
      | _ \<Rightarrow> opt_str (synth_additional_info (org_name org) (org_country org) cls
                 (map map_sector_label_for_sheet secs)))"

definition block_vc :: "string \<Rightarrow> pydict \<Rightarrow> pydict" where
  "block_vc cls r4 =
     (if cls \<noteq> ''Venture Capital Funds''
      then dict_set (dict_set (dict_set (dict_set r4 ''stages'' (PList []))
             ''ticket_size_usd_min'' PNone) ''ticket_size_usd_max'' PNone)
             ''ticket_size_currency'' PNone
      else r4)"

definition sources_value :: "pyval \<Rightarrow> pyval" where
  "sources_value v = (case py_or v (PList []) of PList l \<Rightarrow> PList (take 5 l) | _ \<Rightarrow> PList [])"

definition sanitized :: "org \<Rightarrow> pydict \<Rightarrow> string \<Rightarrow> string list \<Rightarrow> string \<Rightarrow> pydict" where
  "sanitized org record heuristic_fc inferred_sectors f =
     (let cls = resolve_cls f heuristic_fc;
          r1 = block_fc record f heuristic_fc;
          r2 = block_angel org cls r1;
          secs = final_sectors cls (dict_get r2 ''sectors'') inferred_sectors;
          r3 = dict_set r2 ''sectors'' (PList (map PStr secs));
          r4 = dict_set r3 ''additional_info'' (note_value org cls secs (dict_get r3 ''additional_info''));
          r5 = block_vc cls r4
      in dict_set r5 ''sources'' (sources_value (dict_get r5 ''sources'')))"

text \<open>The text \<^verbatim>\<open>synth_additional_info\<close> builds before clipping it.\<close>

definition synth_text :: "string \<Rightarrow> string option \<Rightarrow> string \<Rightarrow> string list \<Rightarrow> string" where
  "synth_text name country fc sectors =
     (let region = (case country of None \<Rightarrow> ''the region''
                    | Some c \<Rightarrow> if c \<noteq> [] then c else ''the region'');
          sec_txt = (if sectors \<noteq> [] then join '', '' sectors else ''key industries'')
      in if fc = ''Venture Capital Funds'' then
           ''A venture capital firm investing across '' @ sec_txt @ ''. '' @ name
           @ '' backs startups in '' @ region @ '' with funding and strategic support.''
         else if fc = ''Investment Firms'' then
           ''An investment firm providing capital and strategic support across '' @ sec_txt
           @ ''. '' @ name @ '' partners with companies in '' @ region
           @ '' to scale and optimize operations.''
         else if fc = ''Angel Investors'' then
           ''An angel '' @ (if contains (lower name) ''network'' then ''network'' else ''investor'')
           @ '' backing early-stage startups in '' @ sec_txt @ ''. '' @ name
           @ '' supports founders in '' @ region @ '' with capital and guidance.''
         else if fc = ''Microfinance Institutions'' then
           ''A microfinance institution enabling access to finance for micro and small enterprises. ''
           @ name @ '' serves entrepreneurs in '' @ region @ '' through tailored credit solutions.''
         else if fc = ''Accelerators'' then
           ''An accelerator delivering programs and mentorship for startups. '' @ name
           @ '' helps founders in '' @ region @ '' validate, build, and grow.''
         else if fc = ''Incubators'' then
           ''An incubator providing workspace and hands-on support for early ventures. ''
           @ name @ '' nurtures entrepreneurs in '' @ region @ '' from idea to startup.''
         else if fc = ''Sovereign Wealth Funds'' then
           ''A sovereign wealth fund investing for long-term national value. '' @ name
           @ '' allocates capital to diversified sectors in '' @ region @ ''.''
         else if fc = ''Coworking Spaces'' then
           ''A coworking hub offering flexible workspace and community for entrepreneurs. ''
           @ name @ '' hosts teams and events in '' @ region @ ''.''
         else if fc = ''Entrepreneurship Support Agencies'' then
           ''An ecosystem support organization delivering programs and services for entrepreneurs. ''
           @ name @ '' promotes startup growth in '' @ region @ ''.''
         else if fc = ''Universities & Research Centers'' then
           ''A university/research center fostering innovation and commercialization. ''
           @ name @ '' supports research-based ventures in '' @ region @ ''.''
         else
           ''An organization operating across '' @ sec_txt @ ''. '' @ name
           @ '' supports businesses in '' @ region @ ''.'')"

text \<open>What \<^verbatim>\<open>clip\<close> returns for a stripped, non-empty text.\<close>

definition clipped :: "nat \<Rightarrow> string \<Rightarrow> string" where
  "clipped n t = (if length t > n then take n t @ ''...'' else t)"

text \<open>
  The text the descriptive note is clipped from: the model's own note, stripped, when it is a
  string of more than 10 characters after stripping, and the synthesized sentence otherwise.
\<close>

definition note_text :: "org \<Rightarrow> string \<Rightarrow> string list \<Rightarrow> pyval \<Rightarrow> string" where
  "note_text org cls secs ai =
     (if keeps_model_note ai then strip (py_str ai)
      else synth_text (org_name org) (org_country org) cls (map map_sector_label_for_sheet secs))"

section \<open>main.py: website resolution\<close>

fun any_in :: "string list \<Rightarrow> string \<Rightarrow> bool" where
  "any_in [] u = False"
| "any_in (s # ss) u = (contains u s \<or> any_in ss u)"

definition is_social :: "string \<Rightarrow> bool" where
  "is_social url =
     (let u = lower url
      in any_in [''linkedin.com'', ''facebook.com'', ''twitter.com'', ''x.com'',
                 ''instagram.com'', ''t.co''] u)"

definition is_http :: "string \<Rightarrow> bool" where
  "is_http s = (startswith s ''http://'' \<or> startswith s ''https://'')"

definition normalize_scheme :: "string \<Rightarrow> string option" where
  "normalize_scheme url0 =
     (let url = strip url0
      in if url = [] then None
         else if is_http url then Some url
         else Some (''https://'' @ url))"

text \<open>
  The pattern \<^verbatim>\<open>https?://\<close> matched, ignoring case, at the start of a string: the scheme
  as written and what follows the two slashes.
\<close>

definition scheme_prefix :: "string \<Rightarrow> (string \<times> string) option" where
  "scheme_prefix s =
     (if lower (take 4 s) = ''http''
      then (if lower (take 1 (drop 4 s)) = ''s'' \<and> take 3 (drop 5 s) = ''://''
            then Some (take 8 s, drop 8 s)
            else if take 3 (drop 4 s) = ''://'' then Some (take 7 s, drop 7 s)
            else None)
      else None)"

text \<open>\<^verbatim>\<open>re.search(r"https?://[^\s)]+", s, re.IGNORECASE)\<close>, group 0.\<close>

definition match_url_at :: "string \<Rightarrow> string option" where
  "match_url_at s =
     (case scheme_prefix s of
        None \<Rightarrow> None
      | Some (scheme, rest) \<Rightarrow>
          (let body = takeWhile (\<lambda>c. \<not> is_space c \<and> c \<noteq> CHR '')'') rest
           in if body \<noteq> [] then Some (scheme @ body) else None))"

fun search_url :: "string \<Rightarrow> string option" where
  "search_url [] = None"
| "search_url (c # cs) =
     (case match_url_at (c # cs) of Some m \<Rightarrow> Some m | None \<Rightarrow> search_url cs)"

text \<open>
  \<^verbatim>\<open>DOMAIN_RE\<close>, group 1: a run of \<^verbatim>\<open>[A-Za-z0-9.-]\<close>, cut by backtracking at its last dot
  that has a character before it and at least two letters after it, then all the letters that
  follow that dot. The optional scheme before the group is tried first, then left out.
\<close>

definition is_letter :: "char \<Rightarrow> bool" where
  "is_letter c = (let n = of_char c :: nat in (65 \<le> n \<and> n \<le> 90) \<or> (97 \<le> n \<and> n \<le> 122))"

definition is_domain_char :: "char \<Rightarrow> bool" where
  "is_domain_char c =
     (let n = of_char c :: nat
      in is_letter c \<or> (48 \<le> n \<and> n \<le> 57) \<or> c = CHR ''.'' \<or> c = CHR ''-'')"

definition domain_group :: "string \<Rightarrow> string option" where
  "domain_group t =
     (let run = takeWhile is_domain_char t;
          ks = filter (\<lambda>k. run ! k = CHR ''.'' \<and> is_letter (run ! (k + 1))
                         \<and> is_letter (run ! (k + 2)))
                 [1 ..< length run - 2]
      in if ks = [] then None
         else Some (take (last ks + 1) run @ takeWhile is_letter (drop (last ks + 1) run)))"

definition match_domain_at :: "string \<Rightarrow> string option" where
  "match_domain_at s =
     (case scheme_prefix s of
        None \<Rightarrow> domain_group s
      | Some (scheme, rest) \<Rightarrow>
          (case domain_group rest of Some d \<Rightarrow> Some d | None \<Rightarrow> domain_group s))"

fun search_domain :: "string \<Rightarrow> string option" where
  "search_domain [] = None"
| "search_domain (c # cs) =
     (case match_domain_at (c # cs) of Some d \<Rightarrow> Some d | None \<Rightarrow> search_domain cs)"

definition extract_url_from_freeform :: "string \<Rightarrow> string option" where
  "extract_url_from_freeform text =
     (let s = strip text
      in if s = [] then None
         else (case search_url s of
                 Some m \<Rightarrow> Some m
               | None \<Rightarrow>
                   (case search_domain s of
                      Some domain \<Rightarrow> if is_social domain then None else normalize_scheme domain
                    | None \<Rightarrow> None)))"

text \<open>
  \<^verbatim>\<open>urlparse\<close> and \<^verbatim>\<open>parse_qs\<close> are the standard library's; the model takes them as
  parameters, None where they raise. Of the parsed URL the code reads three fields.
\<close>

record parsed_url =
  netloc :: string
  path :: string
  query :: string

definition normalize_ddg_href ::
  "(string \<Rightarrow> parsed_url option) \<Rightarrow> (string \<Rightarrow> (string \<times> string list) list option)
   \<Rightarrow> pyval \<Rightarrow> string option" where
  "normalize_ddg_href urlparse parse_qs raw0 =
     (case raw0 of
        PStr r \<Rightarrow>
          (let raw = strip r
           in if raw = [] then None
              else if startswith raw ''http://'' \<or> startswith raw ''https://'' then Some raw
              else (case urlparse raw of
                      None \<Rightarrow> None
                    | Some p \<Rightarrow>
                        if contains (netloc p) ''duckduckgo.com'' \<and> startswith (path p) ''/l/''
                        then (case parse_qs (query p) of
                                None \<Rightarrow> None
                              | Some qs \<Rightarrow>
                                  (case map_of qs ''uddg'' of
                                     Some (uddg # rest) \<Rightarrow>
                                       if startswith uddg ''http://'' \<or> startswith uddg ''https://''
                                       then Some uddg else None
                                   | _ \<Rightarrow> None))
                        else None))
      | _ \<Rightarrow> None)"

fun first_search_hit ::
  "(string \<Rightarrow> parsed_url option) \<Rightarrow> (string \<Rightarrow> (string \<times> string list) list option)
   \<Rightarrow> pydict list \<Rightarrow> string option" where
  "first_search_hit urlparse parse_qs [] = None"
| "first_search_hit urlparse parse_qs (r # rs) =
     (let c = py_or (dict_get r ''href'') (dict_get r ''link'');
          candidate = (if truthy c then normalize_ddg_href urlparse parse_qs c else None)
      in case candidate of
           Some u \<Rightarrow> if u \<noteq> [] \<and> \<not> is_social u then Some u
                     else first_search_hit urlparse parse_qs rs
         | None \<Rightarrow> first_search_hit urlparse parse_qs rs)"

definition choose_website ::
  "(string \<Rightarrow> parsed_url option) \<Rightarrow> (string \<Rightarrow> (string \<times> string list) list option)
   \<Rightarrow> string option \<Rightarrow> pydict list \<Rightarrow> string option" where
  "choose_website urlparse parse_qs favorite_url search_results =
     (case (case favorite_url of
              None \<Rightarrow> None
            | Some f \<Rightarrow>
                if strip f \<noteq> []
                then (case extract_url_from_freeform f of
                        Some fav \<Rightarrow> if fav \<noteq> [] \<and> \<not> is_social fav then Some fav else None
                      | None \<Rightarrow> None)
                else None) of
        Some fav \<Rightarrow> Some fav
      | None \<Rightarrow> first_search_hit urlparse parse_qs search_results)"

section \<open>extract.py\<close>


definition fallback_record :: "org \<Rightarrow> string \<Rightarrow> pydict" where
  "fallback_record org out =
     (let snippet0 = strip out;
          snippet = (if length snippet0 > 400 then take 400 snippet0 @ ''...'' else snippet0)
      in [(''name'', PStr (org_name org)),
          (''country'', opt_str (org_country org)),
          (''website'', opt_str (org_website org)),
          (''classification'', PNone),
          (''sectors'', PList []),
          (''angel_type'', PNone),
          (''ticket_size_usd_min'', PNone),
          (''ticket_size_usd_max'', PNone),
          (''ticket_size_currency'', PNone),
          (''stages'', PList []),
          (''notes'', PStr (''Model returned non-JSON. Raw snippet: '' @ snippet)),
          (''sources'', PList []),
          (''confidence'', PFloat ''0.0'')])"


section \<open>classify.py: heuristics\<close>







section \<open>main.py: column normalization and the row\<close>









section \<open>The sector normalization in the specification's words\<close>

text \<open>
  The sector normalization as the specification words it: null gives no string; a string, or
  any other scalar coerced to a string, gives itself stripped unless it is blank; a list gives
  the strings of its items in order, where a label-bearing object gives the stripped text of
  the first of its keys name, label, value, sector that holds a non-blank string.
\<close>

definition spec_nonblank :: "string \<Rightarrow> string list" where
  "spec_nonblank s = (if strip s = [] then [] else [strip s])"

definition spec_has_label :: "pydict \<Rightarrow> string \<Rightarrow> bool" where
  "spec_has_label obj k = (case map_of obj k of Some (PStr v) \<Rightarrow> strip v \<noteq> [] | _ \<Rightarrow> False)"

definition spec_object_label :: "pydict \<Rightarrow> string list" where
  "spec_object_label obj =
     (case find (spec_has_label obj) [''name'', ''label'', ''value'', ''sector''] of
        None \<Rightarrow> []
      | Some k \<Rightarrow> spec_nonblank (py_str (dict_get obj k)))"

definition spec_item_strings :: "pyval \<Rightarrow> string list" where
  "spec_item_strings item =
     (case item of PDict obj \<Rightarrow> spec_object_label obj | _ \<Rightarrow> spec_nonblank (py_str item))"

definition spec_sector_strings :: "pyval \<Rightarrow> string list" where
  "spec_sector_strings raw =
     (case raw of
        PNone \<Rightarrow> []
      | PList items \<Rightarrow> concat (map spec_item_strings items)
      | _ \<Rightarrow> spec_nonblank (py_str raw))"

text \<open>A record whose classification is absent, falsy or a string: the others make
  \<^verbatim>\<open>sanitize_record\<close> raise.\<close>

definition classification_usable :: "pydict \<Rightarrow> bool" where
  "classification_usable record =
     (case dict_get record ''funding_classification'' of PStr f \<Rightarrow> True | v \<Rightarrow> \<not> truthy v)"

definition spec_allowed_sectors :: "string set" where
  "spec_allowed_sectors =
     {''Information & Communication Technology (ICT)'', ''ICT'', ''Health'', ''Energy'',
      ''Agriculture'', ''Environment'', ''Industry & Manufacturing'',
      ''Transportation & Mobility'', ''Education'', ''Creative Industries'',
      ''Infrastructure & Real Estate'', ''Social Impact'', ''Business & Professional Services''}"

section \<open>Example inputs\<close>

definition ex_org :: org where
  "ex_org = \<lparr>org_name = ''Acme Angel Network'', org_country = Some ''Jordan'', org_website = None\<rparr>"

definition ex_record :: pydict where
  "ex_record =
     [(''name'', PStr ''X''),
      (''funding_classification'', PStr ''Accelerators''),
      (''angel_type'', PStr ''network''),
      (''sectors'', PList [PStr '' Health '', PDict [(''label'', PStr ''ICT'')], PInt 5, PStr ''Health'']),
      (''stages'', PList [PStr ''Seed'']),
      (''ticket_size_usd_min'', PInt 100000),
      (''confidence'', PFloat ''0.5'')]"

definition ex_sanitized :: pydict where
  "ex_sanitized =
     [(''name'', PStr ''X''),
      (''funding_classification'', PStr ''Accelerators''),
      (''angel_type'', PNone),
      (''sectors'', PList [PStr ''Health'', PStr ''ICT'']),
      (''stages'', PList []),
      (''ticket_size_usd_min'', PNone),
      (''confidence'', PFloat ''0.5''),
      (''additional_info'', PStr ''An accelerator delivering programs and mentorship for startups. Acme Angel Network helps founders in Jordan validate, build, and grow.''),
      (''ticket_size_usd_max'', PNone),
      (''ticket_size_currency'', PNone),
      (''sources'', PList [])]"

definition long_record :: pydict where
  "long_record = [(''additional_info'', PStr (replicate 221 (CHR ''a'')))]"

definition long_sanitized :: pydict where
  "long_sanitized =
     [(''additional_info'', PStr (replicate 220 (CHR ''a'') @ ''...'')),
      (''funding_classification'', PStr ''Investment Firms''),
      (''angel_type'', PNone),
      (''sectors'', PList [PStr ''Business & Professional Services'']),
      (''stages'', PList []),
      (''ticket_size_usd_min'', PNone),
      (''ticket_size_usd_max'', PNone),
      (''ticket_size_currency'', PNone),
      (''sources'', PList [])]"

definition unusable_record :: pydict where
  "unusable_record = [(''funding_classification'', PInt 5), (''sectors'', PStr ''Health'')]"

definition ddg_redirect :: string where
  "ddg_redirect = ''https://duckduckgo.com/l/?uddg=https%3A%2F%2Fexample.org%2F&rut=x''"







section \<open>Lemmas on sanitize_record\<close>

lemma sanitize_record_blocks:
  "sanitize_record org record heuristic_fc inferred_sectors =
     (case py_or (dict_get record ''funding_classification'') (PStr []) of
        PStr f \<Rightarrow> Inr (sanitized org record heuristic_fc inferred_sectors f)
      | _ \<Rightarrow> Inl AttributeError)"
  unfolding sanitize_record_def sanitized_def resolve_cls_def block_fc_def block_angel_def
    derived_angel_type_def final_sectors_def sector_chain_def allowed_only_def note_value_def
    block_vc_def sources_value_def Let_def
  by (rule refl)

lemma synth_additional_info_text:
  "synth_additional_info name country fc sectors = clip (synth_text name country fc sectors) 220"
  by (simp add: synth_additional_info_def synth_text_def Let_def)

lemma map_of_dict_set: "map_of (dict_set d k v) k' = (if k' = k then Some v else map_of d k')"
  by (simp add: dict_set_def update_conv')

lemma dict_get_dict_set: "dict_get (dict_set d k v) k' = (if k' = k then v else dict_get d k')"
  by (simp add: dict_get_def map_of_dict_set)

lemma dict_set_same: "map_of d k = Some v \<Longrightarrow> dict_set d k v = d"
  by (simp add: dict_set_def update_triv)

lemma sanitize_record_Inr:
  assumes "sanitize_record org record heuristic_fc inferred_sectors = Inr r'"
  shows "\<exists>f. py_or (dict_get record ''funding_classification'') (PStr []) = PStr f
           \<and> r' = sanitized org record heuristic_fc inferred_sectors f"
  using assms unfolding sanitize_record_blocks
  by (cases "py_or (dict_get record ''funding_classification'') (PStr [])") auto

lemma strip_Nil [simp]: "strip [] = []"
  by (simp add: strip_def)

lemma fc_text_cases:
  assumes "py_or (dict_get record ''funding_classification'') (PStr []) = PStr f"
  shows "f = [] \<or> map_of record ''funding_classification'' = Some (PStr f)"
  using assms
  by (auto simp: py_or_def dict_get_def split: if_splits option.splits)

lemma map_of_block_fc_other:
  "k \<noteq> ''funding_classification'' \<Longrightarrow> map_of (block_fc record f h) k = map_of record k"
  by (simp add: block_fc_def map_of_dict_set)

lemma map_of_block_fc:
  assumes "py_or (dict_get record ''funding_classification'') (PStr []) = PStr f"
  shows "map_of (block_fc record f h) ''funding_classification'' = Some (PStr (resolve_cls f h))"
  using fc_text_cases [OF assms]
  by (auto simp: block_fc_def resolve_cls_def map_of_dict_set)

lemma map_of_block_angel_other:
  "k \<noteq> ''angel_type'' \<Longrightarrow> map_of (block_angel org cls r) k = map_of r k"
  by (simp add: block_angel_def map_of_dict_set)

lemma map_of_block_vc_other:
  "k \<notin> {''stages'', ''ticket_size_usd_min'', ''ticket_size_usd_max'', ''ticket_size_currency''}
   \<Longrightarrow> map_of (block_vc cls r) k = map_of r k"
  by (simp add: block_vc_def map_of_dict_set)

lemma map_of_sanitized_other:
  assumes "k \<notin> {''funding_classification'', ''angel_type'', ''sectors'', ''additional_info'',
               ''stages'', ''ticket_size_usd_min'', ''ticket_size_usd_max'',
               ''ticket_size_currency'', ''sources''}"
  shows "map_of (sanitized org record h isec f) k = map_of record k"
  using assms
  by (simp add: sanitized_def Let_def map_of_dict_set map_of_block_vc_other
      map_of_block_angel_other map_of_block_fc_other)

lemma map_of_sanitized_fc:
  assumes "py_or (dict_get record ''funding_classification'') (PStr []) = PStr f"
  shows "map_of (sanitized org record h isec f) ''funding_classification'' = Some (PStr (resolve_cls f h))"
  by (simp add: sanitized_def Let_def map_of_dict_set map_of_block_vc_other
      map_of_block_angel_other map_of_block_fc [OF assms])

subsection \<open>strip and clip\<close>

lemma last_dropWhile_nonempty:
  "dropWhile P xs \<noteq> [] \<Longrightarrow> last (dropWhile P xs) = last xs"
  by (induction xs) (auto split: if_splits)

lemma strip_ends:
  assumes "strip s \<noteq> []"
  shows "\<not> is_space (hd (strip s))" and "\<not> is_space (last (strip s))"
proof -
  let ?d = "dropWhile is_space s"
  let ?e = "dropWhile is_space (rev ?d)"
  from assms have e: "?e \<noteq> []" by (simp add: strip_def)
  have d: "?d \<noteq> []"
  proof
    assume "?d = []"
    with e show False by simp
  qed
  have "hd (strip s) = last ?e" using e by (simp add: strip_def hd_rev)
  also have "\<dots> = last (rev ?d)" using e by (rule last_dropWhile_nonempty)
  also have "\<dots> = hd ?d" using d by (simp add: last_rev)
  finally show "\<not> is_space (hd (strip s))" using d hd_dropWhile [of is_space s] by simp
  have "last (strip s) = hd ?e" using e by (simp add: strip_def last_rev)
  then show "\<not> is_space (last (strip s))" using e hd_dropWhile [of is_space "rev ?d"] by simp
qed

lemma strip_id:
  assumes "s \<noteq> []" "\<not> is_space (hd s)" "\<not> is_space (last s)"
  shows "strip s = s"
proof -
  have d: "dropWhile is_space s = s" using assms by (cases s) auto
  have "dropWhile is_space (rev s) = rev s"
    using assms by (cases "rev s") (auto simp: hd_rev)
  then show ?thesis by (simp add: strip_def d)
qed

lemma strip_strip [simp]: "strip (strip s) = strip s"
proof (cases "strip s = []")
  case True
  then show ?thesis by simp
next
  case False
  then show ?thesis using strip_ends [OF False] by (intro strip_id)
qed

lemma length_strip_le: "length (strip s) \<le> length s"
proof -
  have "length (strip s) \<le> length (dropWhile is_space s)"
    using length_dropWhile_le [of is_space "rev (dropWhile is_space s)"]
    by (simp add: strip_def)
  also have "\<dots> \<le> length s" by (rule length_dropWhile_le)
  finally show ?thesis .
qed

lemma clip_Some: "s \<noteq> [] \<Longrightarrow> clip s n = Some (clipped n (strip s))"
  by (simp add: clip_def clipped_def Let_def)

lemma length_clipped: "length (clipped n t) \<le> n + 3"
  by (simp add: clipped_def)

lemma clipped_nonempty: "t \<noteq> [] \<Longrightarrow> clipped n t \<noteq> []"
  by (simp add: clipped_def)

lemma length_clipped_ge: "m \<le> n + 3 \<Longrightarrow> m \<le> length t \<Longrightarrow> m \<le> length (clipped n t)"
  by (simp add: clipped_def)

lemma not_space_dot [simp]: "\<not> is_space (CHR ''.'')"
  by (simp add: is_space_def)

lemma strip_clipped:
  assumes "strip u = u"
  shows "strip (clipped n u) = clipped n u"
proof (cases "length u > n")
  case False
  then show ?thesis using assms by (simp add: clipped_def)
next
  case True
  then have u: "u \<noteq> []" by auto
  have e: "\<not> is_space (hd u)" using strip_ends(1) [of u] assms u by simp
  have h: "\<not> is_space (hd (take n u @ ''...''))"
    using e by (cases n; cases u) auto
  show ?thesis using True h by (simp add: clipped_def strip_id)
qed

lemma clipped_clipped: "clipped n (clipped n u) = clipped n u"
  by (simp add: clipped_def)

lemma clip_stable:
  assumes "strip u = u" "u \<noteq> []"
  shows "clip (clipped n u) n = Some (clipped n u)"
  using assms by (simp add: clip_Some clipped_nonempty strip_clipped clipped_clipped)

subsection \<open>fromkeys\<close>

lemma set_fromkeys_acc: "set (fromkeys_acc seen xs) = set seen \<union> set xs"
  by (induction xs arbitrary: seen) auto

lemma distinct_fromkeys_acc: "distinct seen \<Longrightarrow> distinct (fromkeys_acc seen xs)"
  by (induction xs arbitrary: seen) auto

lemma fromkeys_acc_distinct: "distinct (seen @ xs) \<Longrightarrow> fromkeys_acc seen xs = seen @ xs"
  by (induction xs arbitrary: seen) auto

lemma fromkeys_acc_nonempty:
  assumes "seen \<noteq> [] \<or> xs \<noteq> []"
  shows "fromkeys_acc seen xs \<noteq> []"
proof
  assume "fromkeys_acc seen xs = []"
  then have "set seen \<union> set xs = {}" using set_fromkeys_acc [of seen xs] by simp
  with assms show False by simp
qed

lemma set_fromkeys [simp]: "set (fromkeys xs) = set xs"
  by (simp add: fromkeys_def set_fromkeys_acc)

lemma distinct_fromkeys [simp]: "distinct (fromkeys xs)"
  by (simp add: fromkeys_def distinct_fromkeys_acc)

lemma fromkeys_distinct: "distinct xs \<Longrightarrow> fromkeys xs = xs"
  by (simp add: fromkeys_def fromkeys_acc_distinct)

lemma fromkeys_nonempty: "xs \<noteq> [] \<Longrightarrow> fromkeys xs \<noteq> []"
  by (simp add: fromkeys_def fromkeys_acc_nonempty)

subsection \<open>Sectors\<close>

lemma allowed_clean: "s \<in> set ALLOWED_SECTORS \<Longrightarrow> strip s = s \<and> s \<noteq> []"
  by (auto simp: ALLOWED_SECTORS_def strip_def is_space_def)

lemma default_sector_eq:
  "default_sector cls =
     (if cls = ''Universities & Research Centers'' then ''Education''
      else ''Business & Professional Services'')"
  by (simp add: default_sector_def DEFAULT_SECTOR_BY_FC_def)

lemma default_sector_allowed: "default_sector cls \<in> set ALLOWED_SECTORS"
  by (simp add: default_sector_eq ALLOWED_SECTORS_def)

lemma set_allowed_only: "set (allowed_only xs) \<subseteq> set ALLOWED_SECTORS"
  by (auto simp: allowed_only_def)

lemma allowed_only_id: "set xs \<subseteq> set ALLOWED_SECTORS \<Longrightarrow> allowed_only xs = xs"
  by (auto simp: allowed_only_def filter_id_conv)

lemma sector_chain_nonempty: "sector_chain cls raw isec \<noteq> []"
  by (simp add: sector_chain_def Let_def)

lemma set_sector_chain: "set (sector_chain cls raw isec) \<subseteq> set ALLOWED_SECTORS"
  using set_allowed_only default_sector_allowed
  by (simp add: sector_chain_def Let_def)

lemma final_sectors_nonempty: "final_sectors cls raw isec \<noteq> []"
  using fromkeys_nonempty [OF sector_chain_nonempty, of cls raw isec]
  by (simp add: final_sectors_def)

lemma final_sectors_length: "length (final_sectors cls raw isec) \<le> 4"
  by (simp add: final_sectors_def)

lemma final_sectors_distinct: "distinct (final_sectors cls raw isec)"
  by (simp add: final_sectors_def)

lemma final_sectors_allowed: "set (final_sectors cls raw isec) \<subseteq> set ALLOWED_SECTORS"
proof -
  have "set (final_sectors cls raw isec) \<subseteq> set (fromkeys (sector_chain cls raw isec))"
    unfolding final_sectors_def by (rule set_take_subset)
  then show ?thesis using set_sector_chain [of cls raw isec] by simp
qed

lemma as_string_sector_list_clean:
  assumes "\<And>s. s \<in> set secs \<Longrightarrow> strip s = s \<and> s \<noteq> []"
  shows "as_string_sector_list (PList (map PStr secs)) = secs"
proof -
  have "concat (map sector_item (map PStr secs)) = secs"
    using assms by (induction secs) (simp_all add: Let_def)
  then show ?thesis by (simp add: as_string_sector_list_def)
qed

lemma final_sectors_fixed:
  assumes "secs \<noteq> []" "set secs \<subseteq> set ALLOWED_SECTORS" "distinct secs" "length secs \<le> 4"
  shows "final_sectors cls (PList (map PStr secs)) isec = secs"
proof -
  have "as_string_sector_list (PList (map PStr secs)) = secs"
    using assms(2) allowed_clean by (intro as_string_sector_list_clean) auto
  then have "sector_chain cls (PList (map PStr secs)) isec = secs"
    using assms(1,2) by (simp add: sector_chain_def Let_def allowed_only_id)
  then show ?thesis using assms(3,4) by (simp add: final_sectors_def fromkeys_distinct)
qed

subsection \<open>The descriptive note\<close>

lemma synth_text_hd: "hd (synth_text n c fc secs) = CHR ''A''"
  by (simp add: synth_text_def Let_def)

lemma synth_text_last: "last (synth_text n c fc secs) = CHR ''.''"
  by (simp add: synth_text_def Let_def)

lemma synth_text_length: "10 < length (synth_text n c fc secs)"
  by (simp add: synth_text_def Let_def)

lemma strip_synth_text: "strip (synth_text n c fc secs) = synth_text n c fc secs"
proof -
  have "synth_text n c fc secs \<noteq> []" using synth_text_length [of n c fc secs] by auto
  then show ?thesis
    by (intro strip_id) (simp_all add: synth_text_hd synth_text_last is_space_def)
qed

lemma note_value_eq: "note_value org cls secs ai = PStr (clipped 220 (note_text org cls secs ai))"
proof -
  have s: "synth_text (org_name org) (org_country org) cls (map map_sector_label_for_sheet secs) \<noteq> []"
    using synth_text_length [of "org_name org" "org_country org" cls "map map_sector_label_for_sheet secs"]
    by auto
  show ?thesis
    by (cases ai)
      (simp_all add: note_value_def note_text_def keeps_model_note_def py_str_def opt_str_def
        synth_additional_info_text clip_Some s strip_synth_text)
qed

lemma strip_note_text: "strip (note_text org cls secs ai) = note_text org cls secs ai"
  by (simp add: note_text_def strip_synth_text)

lemma note_text_length: "10 < length (note_text org cls secs ai)"
  by (cases ai) (simp_all add: note_text_def keeps_model_note_def py_str_def synth_text_length)

lemma note_value_fixed:
  "note_value org cls secs (PStr (clipped 220 (note_text org cls secs ai)))
     = PStr (clipped 220 (note_text org cls secs ai))"
proof -
  let ?u = "note_text org cls secs ai"
  let ?t = "clipped 220 ?u"
  have u: "?u \<noteq> []" using note_text_length [of org cls secs ai] by auto
  have len: "10 < length ?t"
    using length_clipped_ge [of 11 220 ?u] note_text_length [of org cls secs ai] by simp
  have st: "strip ?t = ?t" using strip_note_text by (rule strip_clipped)
  have k: "keeps_model_note (PStr ?t)" using len st by (auto simp: keeps_model_note_def)
  have "note_text org cls secs (PStr ?t) = ?t"
    using k st by (simp add: note_text_def py_str_def)
  then show ?thesis by (simp add: note_value_eq clipped_clipped)
qed

subsection \<open>What the sanitized record holds under each key\<close>

lemma dict_get_block_fc_other:
  "k \<noteq> ''funding_classification'' \<Longrightarrow> dict_get (block_fc record f h) k = dict_get record k"
  by (simp add: dict_get_def map_of_block_fc_other)

lemma dict_get_block_angel_other:
  "k \<noteq> ''angel_type'' \<Longrightarrow> dict_get (block_angel org cls r) k = dict_get r k"
  by (simp add: dict_get_def map_of_block_angel_other)

lemma dict_get_block_vc_other:
  "k \<notin> {''stages'', ''ticket_size_usd_min'', ''ticket_size_usd_max'', ''ticket_size_currency''}
   \<Longrightarrow> dict_get (block_vc cls r) k = dict_get r k"
  by (simp add: dict_get_def map_of_block_vc_other)

lemma map_of_block_angel_not_angel:
  "cls \<noteq> ''Angel Investors'' \<Longrightarrow> map_of (block_angel org cls r) ''angel_type'' = Some PNone"
  by (simp add: block_angel_def map_of_dict_set)

lemma derived_angel_type_nonempty: "derived_angel_type org \<noteq> []"
  by (simp add: derived_angel_type_def Let_def)

lemma map_of_block_angel_angel:
  "\<exists>a. map_of (block_angel org ''Angel Investors'' r) ''angel_type'' = Some a \<and> truthy a"
proof (cases "truthy (dict_get r ''angel_type'')")
  case True
  then show ?thesis
    by (cases "map_of r ''angel_type''") (auto simp: block_angel_def dict_get_def)
next
  case False
  then show ?thesis
    by (simp add: block_angel_def map_of_dict_set derived_angel_type_nonempty)
qed

lemma map_of_block_vc_not_vc:
  assumes "cls \<noteq> ''Venture Capital Funds''"
  shows "map_of (block_vc cls r) ''stages'' = Some (PList [])"
    and "map_of (block_vc cls r) ''ticket_size_usd_min'' = Some PNone"
    and "map_of (block_vc cls r) ''ticket_size_usd_max'' = Some PNone"
    and "map_of (block_vc cls r) ''ticket_size_currency'' = Some PNone"
  using assms by (simp_all add: block_vc_def map_of_dict_set)

lemma map_of_sanitized_angel:
  "map_of (sanitized org record h isec f) ''angel_type''
     = map_of (block_angel org (resolve_cls f h) (block_fc record f h)) ''angel_type''"
  by (simp add: sanitized_def Let_def map_of_dict_set map_of_block_vc_other)

lemma map_of_sanitized_vc:
  assumes "k \<in> {''stages'', ''ticket_size_usd_min'', ''ticket_size_usd_max'', ''ticket_size_currency''}"
  shows "map_of (sanitized org record h isec f) k =
           (if resolve_cls f h \<noteq> ''Venture Capital Funds''
            then Some (if k = ''stages'' then PList [] else PNone)
            else map_of record k)"
  using assms
  by (auto simp: sanitized_def Let_def map_of_dict_set block_vc_def
      map_of_block_angel_other map_of_block_fc_other)

lemma map_of_sanitized_sectors:
  "map_of (sanitized org record h isec f) ''sectors''
     = Some (PList (map PStr (final_sectors (resolve_cls f h) (dict_get record ''sectors'') isec)))"
  by (simp add: sanitized_def Let_def map_of_dict_set map_of_block_vc_other
      dict_get_block_angel_other dict_get_block_fc_other)

lemma map_of_sanitized_note:
  "map_of (sanitized org record h isec f) ''additional_info''
     = Some (note_value org (resolve_cls f h)
               (final_sectors (resolve_cls f h) (dict_get record ''sectors'') isec)
               (dict_get record ''additional_info''))"
  by (simp add: sanitized_def Let_def map_of_dict_set dict_get_dict_set map_of_block_vc_other
      dict_get_block_angel_other dict_get_block_fc_other)

lemma map_of_sanitized_sources:
  "map_of (sanitized org record h isec f) ''sources''
     = Some (sources_value (dict_get record ''sources''))"
  by (simp add: sanitized_def Let_def map_of_dict_set dict_get_dict_set dict_get_block_vc_other
      dict_get_block_angel_other dict_get_block_fc_other)

lemma sources_value_list: "\<exists>l. sources_value v = PList l \<and> length l \<le> 5"
  by (cases v) (auto simp: sources_value_def py_or_def)

lemma sources_value_fixed: "length l \<le> 5 \<Longrightarrow> sources_value (PList l) = PList l"
  by (simp add: sources_value_def py_or_def)

lemma resolve_cls_nonempty: "resolve_cls f h \<noteq> []"
  by (auto simp: resolve_cls_def)

lemma resolve_cls_fixed: "resolve_cls (resolve_cls f h) h = resolve_cls f h"
  by (auto simp: resolve_cls_def strip_def is_space_def)

subsection \<open>Re-sanitizing\<close>

lemma dict_get_Some: "map_of d k = Some v \<Longrightarrow> dict_get d k = v"
  by (simp add: dict_get_def)

lemma block_fc_fixed:
  assumes "map_of r ''funding_classification'' = Some (PStr (resolve_cls f h))"
  shows "block_fc r (resolve_cls f h) h = r"
  using assms by (simp add: block_fc_def resolve_cls_fixed dict_set_same)

lemma block_angel_fixed:
  assumes "cls \<noteq> ''Angel Investors'' \<Longrightarrow> map_of r ''angel_type'' = Some PNone"
    and "cls = ''Angel Investors'' \<Longrightarrow> truthy (dict_get r ''angel_type'')"
  shows "block_angel org cls r = r"
  using assms by (auto simp: block_angel_def dict_set_same)

lemma block_vc_fixed:
  assumes "cls \<noteq> ''Venture Capital Funds'' \<Longrightarrow>
             map_of r ''stages'' = Some (PList [])
             \<and> map_of r ''ticket_size_usd_min'' = Some PNone
             \<and> map_of r ''ticket_size_usd_max'' = Some PNone
             \<and> map_of r ''ticket_size_currency'' = Some PNone"
  shows "block_vc cls r = r"
  using assms by (auto simp: block_vc_def dict_set_same)

lemma sanitized_fixed:
  assumes fc: "map_of r ''funding_classification'' = Some (PStr (resolve_cls f h))"
    and a1: "resolve_cls f h \<noteq> ''Angel Investors'' \<Longrightarrow> map_of r ''angel_type'' = Some PNone"
    and a2: "resolve_cls f h = ''Angel Investors'' \<Longrightarrow> truthy (dict_get r ''angel_type'')"
    and sec: "map_of r ''sectors'' = Some (PList (map PStr secs))"
    and secs: "secs \<noteq> []" "set secs \<subseteq> set ALLOWED_SECTORS" "distinct secs" "length secs \<le> 4"
    and nt: "map_of r ''additional_info'' = Some (PStr t)"
              "note_value org (resolve_cls f h) secs (PStr t) = PStr t"
    and vc: "resolve_cls f h \<noteq> ''Venture Capital Funds'' \<Longrightarrow>
             map_of r ''stages'' = Some (PList [])
             \<and> map_of r ''ticket_size_usd_min'' = Some PNone
             \<and> map_of r ''ticket_size_usd_max'' = Some PNone
             \<and> map_of r ''ticket_size_currency'' = Some PNone"
    and src: "map_of r ''sources'' = Some (PList l)" "length l \<le> 5"
  shows "sanitized org r h isec (resolve_cls f h) = r"
proof -
  let ?cls = "resolve_cls f h"
  have 1: "block_fc r ?cls h = r" using fc by (rule block_fc_fixed)
  have 2: "block_angel org ?cls r = r" using a1 a2 by (rule block_angel_fixed)
  have 3: "final_sectors ?cls (dict_get r ''sectors'') isec = secs"
    using secs by (simp add: dict_get_Some [OF sec] final_sectors_fixed)
  have 4: "dict_set r ''sectors'' (PList (map PStr secs)) = r"
    using sec by (rule dict_set_same)
  have 5: "dict_set r ''additional_info'' (note_value org ?cls secs (dict_get r ''additional_info'')) = r"
    using nt by (simp add: dict_get_Some [OF nt(1)] dict_set_same)
  have 6: "block_vc ?cls r = r" using vc by (rule block_vc_fixed)
  have 7: "dict_set r ''sources'' (sources_value (dict_get r ''sources'')) = r"
    using src by (simp add: dict_get_Some [OF src(1)] sources_value_fixed dict_set_same)
  show ?thesis
    unfolding sanitized_def Let_def resolve_cls_fixed 1 2 3 4 5 6 7 ..
qed

lemma ex_sanitize_eval:
  "sanitize_record ex_org ex_record ''Investment Firms'' [] = Inr ex_sanitized"
  by code_simp

lemma long_sanitize_eval:
  "sanitize_record ex_org long_record ''Investment Firms'' [] = Inr long_sanitized"
  by code_simp

subsection \<open>The code against the specification's normalization\<close>

lemma first_label_spec:
  "first_label obj ks =
     (case find (spec_has_label obj) ks of
        None \<Rightarrow> []
      | Some k \<Rightarrow> spec_nonblank (py_str (dict_get obj k)))"
proof (induction ks)
  case Nil
  then show ?case by simp
next
  case (Cons k ks)
  show ?case
  proof (cases "map_of obj k")
    case None
    then show ?thesis using Cons by (simp add: spec_has_label_def dict_get_def)
  next
    case (Some v)
    then show ?thesis using Cons
      by (cases v) (simp_all add: spec_has_label_def dict_get_def spec_nonblank_def py_str_def)
  qed
qed

lemma sector_item_spec: "sector_item item = spec_item_strings item"
  by (cases item)
    (simp_all add: spec_item_strings_def spec_object_label_def first_label_spec
      spec_nonblank_def py_str_def Let_def)

lemma as_string_sector_list_spec: "as_string_sector_list raw = spec_sector_strings raw"
proof (cases raw)
  case (PList items)
  have "sector_item = spec_item_strings"
    by (rule ext) (rule sector_item_spec)
  then show ?thesis using PList by (simp add: as_string_sector_list_def spec_sector_strings_def)
qed (simp_all add: as_string_sector_list_def spec_sector_strings_def spec_nonblank_def
      py_str_def Let_def)

lemma remdups_append_dup: "x \<in> set bs \<Longrightarrow> remdups (as @ x # bs) = remdups (as @ bs)"
  by (induction as) auto

lemma fromkeys_acc_remdups:
  "distinct seen \<Longrightarrow> fromkeys_acc seen xs = rev (remdups (rev (seen @ xs)))"
proof (induction xs arbitrary: seen)
  case Nil
  then show ?case by (simp add: distinct_remdups_id)
next
  case (Cons x xs)
  show ?case
  proof (cases "x \<in> set seen")
    case True
    then have "remdups (rev xs @ x # rev seen) = remdups (rev xs @ rev seen)"
      by (intro remdups_append_dup) simp
    then show ?thesis using True Cons by simp
  next
    case False
    then have "distinct (seen @ [x])" using Cons.prems by simp
    from Cons.IH [OF this] show ?thesis using False by simp
  qed
qed

lemma fromkeys_remdups: "fromkeys xs = rev (remdups (rev xs))"
  using fromkeys_acc_remdups [of "[]" xs] by (simp add: fromkeys_def)

lemma sanitize_record_returns:
  "classification_usable record \<Longrightarrow>
     \<exists>f. py_or (dict_get record ''funding_classification'') (PStr []) = PStr f"
  by (cases "dict_get record ''funding_classification''")
    (auto simp: classification_usable_def py_or_def)

lemma sanitize_record_raises:
  "\<not> classification_usable record \<Longrightarrow>
     sanitize_record org record heuristic_fc inferred_sectors = Inl AttributeError"
  by (cases "dict_get record ''funding_classification''")
    (auto simp: classification_usable_def py_or_def sanitize_record_blocks)

lemma allowed_labels: "set ALLOWED_SECTORS = spec_allowed_sectors"
  by (simp add: ALLOWED_SECTORS_def spec_allowed_sectors_def)

lemma ex_record_usable: "classification_usable ex_record"
  by code_simp

lemma unusable_record_unusable: "\<not> classification_usable unusable_record"
  by code_simp

section \<open>Lemmas on website resolution\<close>

lemma normalize_ddg_href_redirect: "normalize_ddg_href urlparse parse_qs (PStr ddg_redirect) = Some ddg_redirect"
  by (simp add: normalize_ddg_href_def ddg_redirect_def strip_def is_space_def)

lemma ddg_redirect_not_unwrapped: "ddg_redirect \<noteq> ''https://example.org/''"
  by (simp add: ddg_redirect_def)

lemma is_social_microsoft: "is_social ''https://microsoft.com''"
  by code_simp

lemma ddg_redirect_not_social: "\<not> is_social ddg_redirect"
  by code_simp


lemma ddg_redirect_nonempty: "ddg_redirect \<noteq> []"
  by (simp add: ddg_redirect_def)

lemma choose_website_redirect: "choose_website urlparse parse_qs None [[(''href'', PStr ddg_redirect)]] = Some ddg_redirect"
  by (simp add: choose_website_def py_or_def dict_get_def normalize_ddg_href_redirect ddg_redirect_not_social ddg_redirect_nonempty)

lemma normalize_ddg_href_microsoft: "normalize_ddg_href urlparse parse_qs (PStr ''https://microsoft.com'') = Some ''https://microsoft.com''"
  by (simp add: normalize_ddg_href_def strip_def is_space_def)

lemma choose_website_microsoft_hit: "choose_website urlparse parse_qs None [[(''href'', PStr ''https://microsoft.com'')]] = None"
  by (simp add: choose_website_def py_or_def dict_get_def normalize_ddg_href_microsoft is_social_microsoft)

lemma extract_url_microsoft: "extract_url_from_freeform ''microsoft.com'' = None"
  by code_simp

lemma strip_microsoft: "strip ''microsoft.com'' = ''microsoft.com''"
  by code_simp

lemma choose_website_microsoft_cell: "choose_website urlparse parse_qs (Some ''microsoft.com'') [] = None"
  by (simp add: choose_website_def extract_url_microsoft strip_microsoft)

section \<open>Lemmas on extract_record\<close>


lemma fallback_record_fields:
  "dict_get (fallback_record org out) ''name'' = PStr (org_name org)"
  "dict_get (fallback_record org out) ''country'' = opt_str (org_country org)"
  "dict_get (fallback_record org out) ''website'' = opt_str (org_website org)"
  "dict_get (fallback_record org out) ''classification'' = PNone"
  "dict_get (fallback_record org out) ''funding_classification'' = PNone"
  "dict_get (fallback_record org out) ''sectors'' = PList []"
  "dict_get (fallback_record org out) ''angel_type'' = PNone"
  "dict_get (fallback_record org out) ''stages'' = PList []"
  "dict_get (fallback_record org out) ''notes'' =
     PStr (''Model returned non-JSON. Raw snippet: '' @ take 400 (strip out)
           @ (if length (strip out) > 400 then ''...'' else []))"
  by (simp_all add: fallback_record_def dict_get_def Let_def)













section \<open>Lemmas on the row\<close>








lemma default_sector_nonempty: "default_sector cls \<noteq> []"
  by (simp add: default_sector_eq)












section \<open>Stage inference\<close>

text \<open>
  C4. \<^verbatim>\<open>infer_stage_from_ticket\<close> returns null for a null input and for every amount below
  100000; Pre-seed on [100000, 500000]; Seed on (500000, 2000000], so for 2000000 itself;
  Series A on (2000000, 10000000]; Series B on (10000000, 30000000], so for 30000000 itself;
  Series C above 30000000, so for 30000001 and for positive infinity.
\<close>

theorem infer_stage_from_ticket_ranges:
  "infer_stage_from_ticket None = None
   \<and> infer_stage_from_ticket (Some NegInf) = None
   \<and> infer_stage_from_ticket (Some PosInf) = Some ''Series C''
   \<and> infer_stage_from_ticket (Some (Finite x)) =
       (if x < 100000 then None
        else if x \<le> 500000 then Some ''Pre-seed''
        else if x \<le> 2000000 then Some ''Seed''
        else if x \<le> 10000000 then Some ''Series A''
        else if x \<le> 30000000 then Some ''Series B''
        else Some ''Series C'')"
  by (simp add: infer_stage_from_ticket_def)

theorem infer_stage_from_ticket_ranges_witness:
  "infer_stage_from_ticket (Some (Finite 50000)) = None
   \<and> infer_stage_from_ticket (Some (Finite 100000)) = Some ''Pre-seed''
   \<and> infer_stage_from_ticket (Some (Finite 500000)) = Some ''Pre-seed''
   \<and> infer_stage_from_ticket (Some (Finite 2000000)) = Some ''Seed''
   \<and> infer_stage_from_ticket (Some (Finite 10000000)) = Some ''Series A''
   \<and> infer_stage_from_ticket (Some (Finite 30000000)) = Some ''Series B''
   \<and> infer_stage_from_ticket (Some (Finite 30000001)) = Some ''Series C''"
  using infer_stage_from_ticket_ranges [of 50000]
    infer_stage_from_ticket_ranges [of 100000]
    infer_stage_from_ticket_ranges [of 500000]
    infer_stage_from_ticket_ranges [of 2000000]
    infer_stage_from_ticket_ranges [of 10000000]
    infer_stage_from_ticket_ranges [of 30000000]
    infer_stage_from_ticket_ranges [of 30000001]
  by simp

section \<open>Record sanitization\<close>

text \<open>
  C1. Whatever the model-supplied record contained, the record \<^verbatim>\<open>sanitize_record\<close> returns
  has empty \<^verbatim>\<open>stages\<close> and null \<^verbatim>\<open>ticket_size_usd_min\<close>, \<^verbatim>\<open>ticket_size_usd_max\<close> and
  \<^verbatim>\<open>ticket_size_currency\<close> when its classification is not Venture Capital Funds, and a
  null \<^verbatim>\<open>angel_type\<close> when its classification is not Angel Investors.
\<close>

theorem sanitize_record_clears_unmeaningful_fields:
  assumes "sanitize_record org record heuristic_fc inferred_sectors = Inr r'"
  shows "(dict_get r' ''funding_classification'' \<noteq> PStr ''Venture Capital Funds'' \<longrightarrow>
            map_of r' ''stages'' = Some (PList [])
            \<and> map_of r' ''ticket_size_usd_min'' = Some PNone
            \<and> map_of r' ''ticket_size_usd_max'' = Some PNone
            \<and> map_of r' ''ticket_size_currency'' = Some PNone)
       \<and> (dict_get r' ''funding_classification'' \<noteq> PStr ''Angel Investors'' \<longrightarrow>
            map_of r' ''angel_type'' = Some PNone)"
proof -
  from sanitize_record_Inr [OF assms] obtain f
    where f: "py_or (dict_get record ''funding_classification'') (PStr []) = PStr f"
      and r': "r' = sanitized org record heuristic_fc inferred_sectors f"
    by blast
  have fc: "dict_get (sanitized org record heuristic_fc inferred_sectors f)
              ''funding_classification'' = PStr (resolve_cls f heuristic_fc)"
    by (rule dict_get_Some) (rule map_of_sanitized_fc [OF f])
  show ?thesis
    unfolding r'
    by (simp add: fc map_of_sanitized_vc map_of_sanitized_angel map_of_block_angel_not_angel)
qed

theorem sanitize_record_clears_unmeaningful_fields_witness:
  "sanitize_record ex_org ex_record ''Investment Firms'' [] = Inr ex_sanitized
   \<and> dict_get ex_sanitized ''funding_classification'' = PStr ''Accelerators''
   \<and> map_of ex_sanitized ''stages'' = Some (PList [])
   \<and> map_of ex_sanitized ''ticket_size_usd_min'' = Some PNone
   \<and> map_of ex_sanitized ''ticket_size_usd_max'' = Some PNone
   \<and> map_of ex_sanitized ''ticket_size_currency'' = Some PNone
   \<and> map_of ex_sanitized ''angel_type'' = Some PNone"
proof -
  have fc: "dict_get ex_sanitized ''funding_classification'' = PStr ''Accelerators''"
    by code_simp
  show ?thesis
    using sanitize_record_clears_unmeaningful_fields [OF ex_sanitize_eval] ex_sanitize_eval fc
    by simp
qed

text \<open>
  C2. \<^verbatim>\<open>sanitize_record\<close> is idempotent: sanitizing the record it returned, with the same
  organization, heuristic classification and inferred sectors, returns that record again.
\<close>

theorem sanitize_record_idempotent:
  assumes "sanitize_record org record heuristic_fc inferred_sectors = Inr r'"
  shows "sanitize_record org r' heuristic_fc inferred_sectors = Inr r'"
proof -
  from sanitize_record_Inr [OF assms] obtain f
    where f: "py_or (dict_get record ''funding_classification'') (PStr []) = PStr f"
      and r': "r' = sanitized org record heuristic_fc inferred_sectors f"
    by blast
  let ?cls = "resolve_cls f heuristic_fc"
  let ?secs = "final_sectors ?cls (dict_get record ''sectors'') inferred_sectors"
  let ?t = "clipped 220 (note_text org ?cls ?secs (dict_get record ''additional_info''))"
  have fc: "map_of r' ''funding_classification'' = Some (PStr ?cls)"
    unfolding r' by (rule map_of_sanitized_fc [OF f])
  have a1: "?cls \<noteq> ''Angel Investors'' \<Longrightarrow> map_of r' ''angel_type'' = Some PNone"
    unfolding r' by (simp add: map_of_sanitized_angel map_of_block_angel_not_angel)
  have a2: "truthy (dict_get r' ''angel_type'')" if "?cls = ''Angel Investors''"
  proof -
    have "\<exists>a. map_of r' ''angel_type'' = Some a \<and> truthy a"
      unfolding r' map_of_sanitized_angel that by (rule map_of_block_angel_angel)
    then show ?thesis by (auto simp: dict_get_def)
  qed
  have sec: "map_of r' ''sectors'' = Some (PList (map PStr ?secs))"
    unfolding r' by (rule map_of_sanitized_sectors)
  have nt: "map_of r' ''additional_info'' = Some (PStr ?t)"
    unfolding r' by (simp add: map_of_sanitized_note note_value_eq)
  have vc: "?cls \<noteq> ''Venture Capital Funds'' \<Longrightarrow>
             map_of r' ''stages'' = Some (PList [])
             \<and> map_of r' ''ticket_size_usd_min'' = Some PNone
             \<and> map_of r' ''ticket_size_usd_max'' = Some PNone
             \<and> map_of r' ''ticket_size_currency'' = Some PNone"
    unfolding r' by (simp add: map_of_sanitized_vc)
  obtain l where src: "map_of r' ''sources'' = Some (PList l)" and l: "length l \<le> 5"
    using sources_value_list [of "dict_get record ''sources''"]
    unfolding r' by (auto simp: map_of_sanitized_sources)
  have fixed: "sanitized org r' heuristic_fc inferred_sectors ?cls = r'"
    using fc a1 a2 sec final_sectors_nonempty final_sectors_allowed final_sectors_distinct
      final_sectors_length nt note_value_fixed vc src l
    by (rule sanitized_fixed)
  have "py_or (dict_get r' ''funding_classification'') (PStr []) = PStr ?cls"
    by (simp add: dict_get_Some [OF fc] py_or_def resolve_cls_nonempty)
  then show ?thesis by (simp add: sanitize_record_blocks fixed)
qed

theorem sanitize_record_idempotent_witness:
  "sanitize_record ex_org ex_record ''Investment Firms'' [] = Inr ex_sanitized
   \<and> sanitize_record ex_org ex_sanitized ''Investment Firms'' [] = Inr ex_sanitized"
  using sanitize_record_idempotent [OF ex_sanitize_eval] ex_sanitize_eval
  by simp

text \<open>
  C5. \<^verbatim>\<open>sanitize_record\<close> raises only for a record whose \<^verbatim>\<open>funding_classification\<close> is truthy
  and not a string. For every other input it returns a record whose \<^verbatim>\<open>sectors\<close> are a
  non-empty list of at most 4 distinct labels of the allow-list, computed by the fallback chain:
  the model's sectors normalized to strings and filtered to the allow-list; if none is left, the
  inferred sectors normalized and filtered the same way; if none is left either, the default
  sector of the classification (Education for Universities & Research Centers, Business &
  Professional Services for every other one); then each label once, in first-seen order, and
  the first four of them.
\<close>

theorem sanitize_record_sectors:
  "(\<not> classification_usable record \<longrightarrow>
      sanitize_record org record heuristic_fc inferred_sectors = Inl AttributeError)
   \<and> (classification_usable record \<longrightarrow>
        (\<exists>r' secs cls.
            sanitize_record org record heuristic_fc inferred_sectors = Inr r'
          \<and> map_of r' ''sectors'' = Some (PList (map PStr secs))
          \<and> map_of r' ''funding_classification'' = Some (PStr cls)
          \<and> secs \<noteq> [] \<and> length secs \<le> 4 \<and> distinct secs \<and> set secs \<subseteq> spec_allowed_sectors
          \<and> secs = take 4 (rev (remdups (rev
              (let model = filter (\<lambda>s. s \<in> spec_allowed_sectors)
                             (spec_sector_strings (dict_get record ''sectors''));
                   inferred = filter (\<lambda>s. s \<in> spec_allowed_sectors)
                             (spec_sector_strings (PList (map PStr inferred_sectors)))
               in if model \<noteq> [] then model
                  else if inferred \<noteq> [] then inferred
                  else [if cls = ''Universities & Research Centers'' then ''Education''
                        else ''Business & Professional Services'']))))))"
proof (intro conjI impI)
  assume "\<not> classification_usable record"
  then show "sanitize_record org record heuristic_fc inferred_sectors = Inl AttributeError"
    by (rule sanitize_record_raises)
next
  assume "classification_usable record"
  then obtain f
    where f: "py_or (dict_get record ''funding_classification'') (PStr []) = PStr f"
    using sanitize_record_returns by blast
  let ?r = "sanitized org record heuristic_fc inferred_sectors f"
  let ?cls = "resolve_cls f heuristic_fc"
  let ?secs = "final_sectors ?cls (dict_get record ''sectors'') inferred_sectors"
  have ret: "sanitize_record org record heuristic_fc inferred_sectors = Inr ?r"
    by (simp add: sanitize_record_blocks f)
  have fc: "map_of ?r ''funding_classification'' = Some (PStr ?cls)"
    by (rule map_of_sanitized_fc [OF f])
  have sec: "map_of ?r ''sectors'' = Some (PList (map PStr ?secs))"
    by (rule map_of_sanitized_sectors)
  have chain: "?secs = take 4 (rev (remdups (rev
              (let model = filter (\<lambda>s. s \<in> spec_allowed_sectors)
                             (spec_sector_strings (dict_get record ''sectors''));
                   inferred = filter (\<lambda>s. s \<in> spec_allowed_sectors)
                             (spec_sector_strings (PList (map PStr inferred_sectors)))
               in if model \<noteq> [] then model
                  else if inferred \<noteq> [] then inferred
                  else [if ?cls = ''Universities & Research Centers'' then ''Education''
                        else ''Business & Professional Services'']))))"
    by (simp add: final_sectors_def sector_chain_def allowed_only_def Let_def default_sector_eq
        as_string_sector_list_spec fromkeys_remdups allowed_labels)
  have sub: "set ?secs \<subseteq> spec_allowed_sectors"
    using final_sectors_allowed [of ?cls] by (simp add: allowed_labels)
  show "\<exists>r' secs cls.
            sanitize_record org record heuristic_fc inferred_sectors = Inr r'
          \<and> map_of r' ''sectors'' = Some (PList (map PStr secs))
          \<and> map_of r' ''funding_classification'' = Some (PStr cls)
          \<and> secs \<noteq> [] \<and> length secs \<le> 4 \<and> distinct secs \<and> set secs \<subseteq> spec_allowed_sectors
          \<and> secs = take 4 (rev (remdups (rev
              (let model = filter (\<lambda>s. s \<in> spec_allowed_sectors)
                             (spec_sector_strings (dict_get record ''sectors''));
                   inferred = filter (\<lambda>s. s \<in> spec_allowed_sectors)
                             (spec_sector_strings (PList (map PStr inferred_sectors)))
               in if model \<noteq> [] then model
                  else if inferred \<noteq> [] then inferred
                  else [if cls = ''Universities & Research Centers'' then ''Education''
                        else ''Business & Professional Services'']))))"
    using ret sec fc final_sectors_nonempty [of ?cls] final_sectors_length [of ?cls]
      final_sectors_distinct [of ?cls] sub chain
    by blast
qed

theorem sanitize_record_sectors_witness:
  "classification_usable ex_record
   \<and> sanitize_record ex_org ex_record ''Investment Firms'' [] = Inr ex_sanitized
   \<and> map_of ex_sanitized ''sectors'' = Some (PList [PStr ''Health'', PStr ''ICT''])
   \<and> (\<exists>r' secs cls.
         sanitize_record ex_org ex_record ''Investment Firms'' [] = Inr r'
         \<and> map_of r' ''sectors'' = Some (PList (map PStr secs))
         \<and> map_of r' ''funding_classification'' = Some (PStr cls)
         \<and> secs \<noteq> [] \<and> length secs \<le> 4 \<and> distinct secs \<and> set secs \<subseteq> spec_allowed_sectors
         \<and> secs = take 4 (rev (remdups (rev
             (let model = filter (\<lambda>s. s \<in> spec_allowed_sectors)
                            (spec_sector_strings (dict_get ex_record ''sectors''));
                  inferred = filter (\<lambda>s. s \<in> spec_allowed_sectors)
                            (spec_sector_strings (PList (map PStr [])))
              in if model \<noteq> [] then model
                 else if inferred \<noteq> [] then inferred
                 else [if cls = ''Universities & Research Centers'' then ''Education''
                       else ''Business & Professional Services''])))))
   \<and> \<not> classification_usable unusable_record
   \<and> sanitize_record ex_org unusable_record ''Investment Firms'' [] = Inl AttributeError"
proof -
  have s: "map_of ex_sanitized ''sectors'' = Some (PList [PStr ''Health'', PStr ''ICT''])"
    by code_simp
  show ?thesis
    using sanitize_record_sectors [of ex_record ex_org "''Investment Firms''" "[]"]
      sanitize_record_sectors [of unusable_record ex_org "''Investment Firms''" "[]"]
      ex_record_usable unusable_record_unusable ex_sanitize_eval s
    by blast
qed

text \<open>
  C6. The claim bounds \<^verbatim>\<open>additional_info\<close> by 220 characters, as the prompt of the repository
  does ("<= 220 chars total"). The code misses the bound: \<^verbatim>\<open>clip\<close> keeps 220 characters and
  then appends the marker "...", so a model note of 221 characters comes back with 223
  characters.
\<close>

theorem sanitize_record_additional_info_exceeds_220:
  "sanitize_record ex_org long_record ''Investment Firms'' [] = Inr long_sanitized
   \<and> dict_get long_record ''additional_info'' = PStr (replicate 221 (CHR ''a''))
   \<and> map_of long_sanitized ''additional_info'' = Some (PStr (replicate 220 (CHR ''a'') @ ''...''))
   \<and> length (replicate 220 (CHR ''a'') @ ''...'') = 223
   \<and> \<not> length (replicate 220 (CHR ''a'') @ ''...'') \<le> 220"
  using long_sanitize_eval by (simp add: long_sanitized_def long_record_def dict_get_def)

text \<open>
  C10. \<^verbatim>\<open>sanitize_record\<close> changes only the keys \<^verbatim>\<open>funding_classification\<close>,
  \<^verbatim>\<open>angel_type\<close>, \<^verbatim>\<open>sectors\<close>, \<^verbatim>\<open>additional_info\<close>, \<^verbatim>\<open>stages\<close>, \<^verbatim>\<open>ticket_size_usd_min\<close>,
  \<^verbatim>\<open>ticket_size_usd_max\<close>, \<^verbatim>\<open>ticket_size_currency\<close> and \<^verbatim>\<open>sources\<close>: under every other key
  (\<^verbatim>\<open>name\<close>, \<^verbatim>\<open>country\<close>, \<^verbatim>\<open>website\<close>, \<^verbatim>\<open>confidence\<close>, \<^verbatim>\<open>notes\<close>, ...) the returned record holds
  what the input record held, and lacks the key when the input lacked it.
\<close>

theorem sanitize_record_frame:
  assumes "sanitize_record org record heuristic_fc inferred_sectors = Inr r'"
    and "k \<notin> {''funding_classification'', ''angel_type'', ''sectors'', ''additional_info'',
               ''stages'', ''ticket_size_usd_min'', ''ticket_size_usd_max'',
               ''ticket_size_currency'', ''sources''}"
  shows "map_of r' k = map_of record k"
proof -
  from sanitize_record_Inr [OF assms(1)] obtain f
    where r': "r' = sanitized org record heuristic_fc inferred_sectors f"
    by blast
  show ?thesis unfolding r' using assms(2) by (rule map_of_sanitized_other)
qed

theorem sanitize_record_frame_witness:
  "sanitize_record ex_org ex_record ''Investment Firms'' [] = Inr ex_sanitized
   \<and> map_of ex_sanitized ''confidence'' = Some (PFloat ''0.5'')
   \<and> map_of ex_record ''confidence'' = Some (PFloat ''0.5'')"
proof -
  have "map_of ex_record ''confidence'' = Some (PFloat ''0.5'')"
    by code_simp
  then show ?thesis
    using sanitize_record_frame [OF ex_sanitize_eval, of "''confidence''"] ex_sanitize_eval
    by simp
qed

section \<open>Website resolution\<close>

text \<open>
  C3. The claim has link normalization unwrap the DuckDuckGo redirect
  \<^verbatim>\<open>https://duckduckgo.com/l/?uddg=https%3A%2F%2Fexample.org%2F&rut=x\<close> to
  \<^verbatim>\<open>https://example.org/\<close>, as the docstring of \<^verbatim>\<open>_normalize_ddg_href\<close> says. The code returns
  every link that starts with \<^verbatim>\<open>http://\<close> or \<^verbatim>\<open>https://\<close> before it looks at the host: the
  redirect comes back unchanged, whatever \<^verbatim>\<open>urlparse\<close> and \<^verbatim>\<open>parse_qs\<close> do, and
  \<^verbatim>\<open>choose_website\<close> takes it as the website.
\<close>

theorem normalize_ddg_href_keeps_http_redirect:
  "ddg_redirect = ''https://duckduckgo.com/l/?uddg=https%3A%2F%2Fexample.org%2F&rut=x''
   \<and> normalize_ddg_href urlparse parse_qs (PStr ddg_redirect) = Some ddg_redirect
   \<and> ddg_redirect \<noteq> ''https://example.org/''
   \<and> choose_website urlparse parse_qs None [[(''href'', PStr ddg_redirect)]] = Some ddg_redirect"
  using normalize_ddg_href_redirect [of urlparse parse_qs] ddg_redirect_not_unwrapped
    choose_website_redirect [of urlparse parse_qs] ddg_redirect_def
  by (intro conjI)

text \<open>
  C9. The claim rejects a candidate exactly when its host is one of the social-media hosts.
  \<^verbatim>\<open>_is_social\<close> looks for the markers anywhere in the lower-cased URL: the host
  \<^verbatim>\<open>microsoft.com\<close> contains \<^verbatim>\<open>t.co\<close>, so the candidate is rejected as a search hit and as
  the favorite-url cell, although its host is none of the social-media hosts.
\<close>

theorem is_social_rejects_other_hosts:
  "is_social ''https://microsoft.com''
   \<and> choose_website urlparse parse_qs None [[(''href'', PStr ''https://microsoft.com'')]] = None
   \<and> choose_website urlparse parse_qs (Some ''microsoft.com'') [] = None"
  using is_social_microsoft choose_website_microsoft_hit [of urlparse parse_qs]
    choose_website_microsoft_cell [of urlparse parse_qs]
  by (intro conjI)

section \<open>Extraction\<close>



section \<open>The row whose collaborators all fail\<close>



end
